theory Spec2Isabelle
  imports Main
begin

section \<open>The phone sign-in form (sign-in/page-content.tsx)\<close>

text \<open>
  The component \<open>Form\<close> keeps three pieces of React state (\<open>isSubmitting\<close>,
  \<open>isOtpSent\<close>, \<open>countdown\<close>) and the values of a react-hook-form form. Its handlers
  are modelled as functions from the state before the handler runs to the way the handler
  completes and the state after it. The two API services are parameters of the handlers;
  every call of a collaborator that only receives data (the services, the snackbar,
  \<open>setError\<close>, \<open>setTokensInfo\<close>, \<open>setUser\<close>) is appended to a log, in program order.
\<close>

subsection \<open>Data\<close>

text \<open>
  Modelled from the spec: \<open>HTTP_CODES_ENUM\<close> is declared in
  \<open>services/api/types/http-codes\<close>, which is not part of the sources. The spec names the
  recognised transport statuses: \<open>OK\<close>, \<open>UNPROCESSABLE\<close>, and an open bucket of any other
  status (the number carried by \<open>OTHER\<close> tells the other statuses apart).
\<close>

datatype HTTP_CODES_ENUM = OK | UNPROCESSABLE_ENTITY | OTHER nat

text \<open>
  The translation function \<open>t\<close> of \<open>useTranslation\<close> and its locale files are outside
  the sources: a translated message \<open>t(key)\<close> is represented by its key.
\<close>

datatype message = T string

datatype variant = Variant_success | Variant_error

datatype fieldName = FullName | Phone | Otp

text \<open>\<open>SignInFormData\<close>: an optional member is \<open>None\<close> when it is \<open>undefined\<close>.\<close>

record SignInFormData =
  fullName :: "string option"
  phone :: string
  otp :: "string option"

text \<open>\<open>AuthPhoneRequestOtpRequest\<close>: the key \<open>fullName\<close> is absent when \<open>None\<close>.\<close>

record AuthPhoneRequestOtpRequest =
  req_phone :: string
  req_fullName :: "string option"

text \<open>The argument of \<open>verifyOtp\<close>; \<open>formData.otp as string\<close> is a cast, erased at run time.\<close>

record AuthPhoneVerifyOtpRequest =
  ver_phone :: string
  ver_otp :: "string option"

text \<open>The \<open>data\<close> of a verify response, as \<open>onSubmit\<close> reads it.\<close>

record 'u session =
  token :: string
  refreshToken :: string
  tokenExpires :: int
  user :: 'u

text \<open>What an awaited service call gives: a response \<open>{data, status}\<close>, or an exception.\<close>

record 'd response =
  status :: HTTP_CODES_ENUM
  data :: "'d option"

datatype 'a promise = Fulfilled 'a | Rejected

type_synonym requestOtpService = "AuthPhoneRequestOtpRequest \<Rightarrow> unit response promise"

type_synonym 'u verifyOtpService = "AuthPhoneVerifyOtpRequest \<Rightarrow> 'u session response promise"

text \<open>The calls of the collaborators, as they are logged.\<close>

datatype 'u effect =
    RequestOtp AuthPhoneRequestOtpRequest
  | VerifyOtp AuthPhoneVerifyOtpRequest
  | EnqueueSnackbar message variant
  | SetError fieldName message
  | SetTokensInfo string string int
  | SetUser 'u

text \<open>
  The state of \<open>Form\<close>: the three \<open>useState\<close> cells, the form values that \<open>getValues\<close>
  reads and \<open>reset\<close> writes, and the log.
\<close>

record 'u form =
  isSubmitting :: bool
  isOtpSent :: bool
  countdown :: int
  formValues :: SignInFormData
  effects :: "'u effect list"

text \<open>How a handler completes: it returns, or an exception leaves it.\<close>

datatype completion = Returned | Threw

definition emit :: "'u effect \<Rightarrow> 'u form \<Rightarrow> 'u form" where
  "emit e s = s\<lparr>effects := effects s @ [e]\<rparr>"

subsection \<open>Validation (useValidationSchema)\<close>

text \<open>The class \<open>\d\<close> of a JavaScript regular expression: the ten ASCII digits.\<close>

definition digit :: "char \<Rightarrow> bool" where
  "digit c = (c \<in> set ''0123456789'')"

text \<open>
  The rules of \<open>phone\<close>, the same in both schemas: \<open>required\<close> refuses the empty string,
  \<open>min(10)\<close> a string shorter than 10, \<open>matches(/^\d+$/)\<close> a string that is not a
  non-empty run of digits. The result lists the messages of the rules that fail.
  A string with a character outside ASCII fails the last rule whatever its length, so
  whether the rules pass does not depend on the unit in which the length is counted.
\<close>

definition phoneRules :: "string \<Rightarrow> message list" where
  "phoneRules p =
     (if p = [] then [T ''sign-in:inputs.phone.validation.required''] else []) @
     (if length p < 10 then [T ''sign-in:inputs.phone.validation.length''] else []) @
     (if p \<noteq> [] \<and> list_all digit p then [] else [T ''sign-in:inputs.phone.validation.numeric''])"

text \<open>\<open>yup.string().required(..)\<close> on an optional member: it must be a non-empty string.\<close>

definition requiredRule :: "string option \<Rightarrow> message \<Rightarrow> message list" where
  "requiredRule v m = (case v of None \<Rightarrow> [m] | Some x \<Rightarrow> if x = [] then [m] else [])"

definition requestOtpSchema :: "SignInFormData \<Rightarrow> fieldName \<Rightarrow> message list" where
  "requestOtpSchema v f =
     (case f of
        FullName \<Rightarrow> []
      | Phone \<Rightarrow> phoneRules (phone v)
      | Otp \<Rightarrow> [])"

definition verifyOtpSchema :: "SignInFormData \<Rightarrow> fieldName \<Rightarrow> message list" where
  "verifyOtpSchema v f =
     (case f of
        FullName \<Rightarrow> []
      | Phone \<Rightarrow> phoneRules (phone v)
      | Otp \<Rightarrow> requiredRule (otp v) (T ''sign-in:inputs.otp.validation.required''))"

definition useValidationSchema :: "bool \<Rightarrow> SignInFormData \<Rightarrow> fieldName \<Rightarrow> message list" where
  "useValidationSchema sent = (if sent then verifyOtpSchema else requestOtpSchema)"

text \<open>\<open>trigger(names)\<close>: the named fields pass the schema of the current step.\<close>

definition trigger :: "fieldName list \<Rightarrow> 'u form \<Rightarrow> bool" where
  "trigger names s =
     list_all (\<lambda>f. useValidationSchema (isOtpSent s) (formValues s) f = []) names"

text \<open>JavaScript's truthiness of \<open>fullName\<close>: a string that is not empty.\<close>

definition truthy :: "string option \<Rightarrow> bool" where
  "truthy v = (case v of None \<Rightarrow> False | Some x \<Rightarrow> x \<noteq> [])"

subsection \<open>The handlers\<close>

text \<open>
  \<open>onSubmit = handleSubmit(async (formData) => ...)\<close>: \<open>handleSubmit\<close> validates the
  whole form and runs the callback only when every field passes. Reading \<open>data.token\<close>
  of an absent \<open>data\<close> throws.
\<close>

definition onSubmit :: "'u verifyOtpService \<Rightarrow> 'u form \<Rightarrow> completion \<times> 'u form" where
  "onSubmit verifyOtp s =
     (if \<not> trigger [FullName, Phone, Otp] s then (Returned, s)
      else
        let formData = formValues s;
            s1 = s\<lparr>isSubmitting := True\<rparr>;
            payload = \<lparr>ver_phone = phone formData, ver_otp = otp formData\<rparr>;
            s2 = emit (VerifyOtp payload) s1
        in case verifyOtp payload of
             Rejected \<Rightarrow> (Threw, s2)
           | Fulfilled r \<Rightarrow>
               if status r = UNPROCESSABLE_ENTITY then
                 (Returned,
                  emit (SetError Otp (T ''sign-in:alerts.wrongOTP''))
                    (s2\<lparr>isSubmitting := False\<rparr>))
               else if status r = OK then
                 let s3 = emit (EnqueueSnackbar (T ''sign-in:alerts.success'') Variant_success)
                            (s2\<lparr>isSubmitting := False\<rparr>)
                 in case data r of
                      None \<Rightarrow> (Threw, s3)
                    | Some d \<Rightarrow>
                        (Returned,
                         emit (SetUser (user d))
                           (emit (SetTokensInfo (token d) (refreshToken d) (tokenExpires d)) s3))
               else (Returned, s2))"

text \<open>
  \<open>handleRequestOtp\<close>: the \<open>finally\<close> block runs on the early \<open>return\<close>, at the end
  of the \<open>try\<close> block and when the awaited call throws.
\<close>

definition handleRequestOtp :: "requestOtpService \<Rightarrow> 'u form \<Rightarrow> completion \<times> 'u form" where
  "handleRequestOtp requestOtp s =
     (if \<not> trigger [Phone, FullName] s then (Returned, s)
      else
        let s1 = s\<lparr>isSubmitting := True\<rparr>;
            v = formValues s1;
            payload0 = \<lparr>req_phone = phone v, req_fullName = None\<rparr>;
            payload = (if truthy (fullName v) then payload0\<lparr>req_fullName := fullName v\<rparr>
                       else payload0);
            s2 = emit (RequestOtp payload) s1
        in case requestOtp payload of
             Rejected \<Rightarrow> (Threw, s2\<lparr>isSubmitting := False\<rparr>)
           | Fulfilled r \<Rightarrow>
               if status r = OK then
                 (Returned,
                  (emit (EnqueueSnackbar (T ''sign-in:alert.otpSent'') Variant_success)
                     (s2\<lparr>isOtpSent := True, countdown := 30\<rparr>))\<lparr>isSubmitting := False\<rparr>)
               else
                 (Returned,
                  (emit (SetError Phone (T ''sign-in:alerts.otpResentFailed'')) s2)
                     \<lparr>isSubmitting := False\<rparr>))"

definition handleResendOtp :: "requestOtpService \<Rightarrow> 'u form \<Rightarrow> completion \<times> 'u form" where
  "handleResendOtp requestOtp s =
     (let v = formValues s;
          payload0 = \<lparr>req_phone = phone v, req_fullName = None\<rparr>;
          payload = (if truthy (fullName v) then payload0\<lparr>req_fullName := fullName v\<rparr>
                     else payload0);
          s1 = emit (RequestOtp payload) s
      in case requestOtp payload of
           Rejected \<Rightarrow> (Threw, s1)
         | Fulfilled r \<Rightarrow>
             let s2 = s1\<lparr>countdown := 30\<rparr>
             in if status r = OK then
                  (Returned,
                   emit (EnqueueSnackbar (T ''sign-in:messages.otpResent'') Variant_success) s2)
                else
                  (Returned,
                   emit (EnqueueSnackbar (T ''sign-in:inputs.phone.validation.server.error'')
                           Variant_error) s2))"

text \<open>\<open>handleBack\<close>: \<open>reset\<close> replaces the form values.\<close>

definition handleBack :: "'u form \<Rightarrow> 'u form" where
  "handleBack s =
     (let s1 = s\<lparr>isOtpSent := False\<rparr>;
          s2 = s1\<lparr>countdown := 0\<rparr>
      in s2\<lparr>formValues :=
              \<lparr>fullName = fullName (formValues s2), phone = phone (formValues s2),
               otp = Some ''''\<rparr>\<rparr>)"

subsection \<open>The resend button\<close>

text \<open>
  The button \<open>resend-otp\<close> is rendered in the branch \<open>isOtpSent\<close> only, with
  \<open>disabled={countdown > 0 || isSubmitting}\<close>; a click on a disabled button runs no
  handler.
\<close>

definition resendOtpDisabled :: "'u form \<Rightarrow> bool" where
  "resendOtpDisabled s = (countdown s > 0 \<or> isSubmitting s)"

definition clickResendOtp :: "requestOtpService \<Rightarrow> 'u form \<Rightarrow> completion \<times> 'u form" where
  "clickResendOtp requestOtp s =
     (if isOtpSent s \<and> \<not> resendOtpDisabled s then handleResendOtp requestOtp s
      else (Returned, s))"

subsection \<open>Observations on the log\<close>

text \<open>The payloads of the calls of \<open>requestOtp\<close> in a log, in order.\<close>

fun requestOtpCalls :: "'u effect list \<Rightarrow> AuthPhoneRequestOtpRequest list" where
  "requestOtpCalls [] = []"
| "requestOtpCalls (RequestOtp p # es) = p # requestOtpCalls es"
| "requestOtpCalls (e # es) = requestOtpCalls es"

text \<open>The field errors set in a log, in order.\<close>

fun fieldErrors :: "'u effect list \<Rightarrow> (fieldName \<times> message) list" where
  "fieldErrors [] = []"
| "fieldErrors (SetError f m # es) = (f, m) # fieldErrors es"
| "fieldErrors (e # es) = fieldErrors es"

text \<open>The notifications enqueued in a log, in order.\<close>

fun snackbars :: "'u effect list \<Rightarrow> (message \<times> variant) list" where
  "snackbars [] = []"
| "snackbars (EnqueueSnackbar m v # es) = (m, v) # snackbars es"
| "snackbars (e # es) = snackbars es"

text \<open>
  The payload that lines 138-140 and 162-166 build from the form values; the theorems
  use it to name the call whose outcome they assume.
\<close>

definition requestPayload :: "SignInFormData \<Rightarrow> AuthPhoneRequestOtpRequest" where
  "requestPayload v =
     \<lparr>req_phone = phone v,
      req_fullName = (if truthy (fullName v) then fullName v else None)\<rparr>"

text \<open>The payload of \<open>verifyOtp\<close>, lines 103-106.\<close>

definition verifyPayload :: "SignInFormData \<Rightarrow> AuthPhoneVerifyOtpRequest" where
  "verifyPayload v = \<lparr>ver_phone = phone v, ver_otp = otp v\<rparr>"

text \<open>
  A payload carries the key \<open>fullName\<close> only for a non-empty name in the form, and then
  that name.
\<close>

definition fullNameOnlyIfNonEmpty :: "SignInFormData \<Rightarrow> AuthPhoneRequestOtpRequest \<Rightarrow> bool" where
  "fullNameOnlyIfNonEmpty v p =
     (case fullName v of
        None \<Rightarrow> req_fullName p = None
      | Some n \<Rightarrow> if n = [] then req_fullName p = None else req_fullName p = Some n)"

text \<open>The spec's pattern for a phone number, \<open>^\d{10,}$\<close>: ten or more digits.\<close>

definition matchesTenDigits :: "string \<Rightarrow> bool" where
  "matchesTenDigits p = (length p \<ge> 10 \<and> list_all digit p)"

text \<open>A state used in the examples: the second step, with a phone number and a code.\<close>

definition verifying :: "nat form" where
  "verifying =
     \<lparr>isSubmitting = False, isOtpSent = True, countdown = 0,
      formValues = \<lparr>fullName = Some ''Jane Doe'', phone = ''5551234567'', otp = Some ''123456''\<rparr>,
      effects = []\<rparr>"

text \<open>The first step, with the same phone number and name.\<close>

definition requesting :: "nat form" where
  "requesting =
     \<lparr>isSubmitting = False, isOtpSent = False, countdown = 0,
      formValues = \<lparr>fullName = Some ''Jane Doe'', phone = ''5551234567'', otp = Some ''''\<rparr>,
      effects = []\<rparr>"

text \<open>A service for the examples: it answers every call with the given response.\<close>

definition answering :: "'r \<Rightarrow> 'p \<Rightarrow> 'r promise" where
  "answering r p = Fulfilled r"

section \<open>Properties\<close>

lemma requestOtpCalls_append:
  "requestOtpCalls (xs @ ys) = requestOtpCalls xs @ requestOtpCalls ys"
  by (induction xs rule: requestOtpCalls.induct) simp_all

lemma fieldErrors_append: "fieldErrors (xs @ ys) = fieldErrors xs @ fieldErrors ys"
  by (induction xs rule: fieldErrors.induct) simp_all

lemma snackbars_append: "snackbars (xs @ ys) = snackbars xs @ snackbars ys"
  by (induction xs rule: snackbars.induct) simp_all

subsection \<open>The handlers, with the payload named\<close>

lemma handleRequestOtp_payload:
  "handleRequestOtp requestOtp s =
     (if \<not> trigger [Phone, FullName] s then (Returned, s)
      else
        let s2 = emit (RequestOtp (requestPayload (formValues s))) (s\<lparr>isSubmitting := True\<rparr>)
        in case requestOtp (requestPayload (formValues s)) of
             Rejected \<Rightarrow> (Threw, s2\<lparr>isSubmitting := False\<rparr>)
           | Fulfilled r \<Rightarrow>
               if status r = OK then
                 (Returned,
                  (emit (EnqueueSnackbar (T ''sign-in:alert.otpSent'') Variant_success)
                     (s2\<lparr>isOtpSent := True, countdown := 30\<rparr>))\<lparr>isSubmitting := False\<rparr>)
               else
                 (Returned,
                  (emit (SetError Phone (T ''sign-in:alerts.otpResentFailed'')) s2)
                     \<lparr>isSubmitting := False\<rparr>))"
  by (cases "truthy (fullName (formValues s))")
    (simp_all add: handleRequestOtp_def requestPayload_def Let_def split: promise.splits)

lemma handleResendOtp_payload:
  "handleResendOtp requestOtp s =
     (let s1 = emit (RequestOtp (requestPayload (formValues s))) s
      in case requestOtp (requestPayload (formValues s)) of
           Rejected \<Rightarrow> (Threw, s1)
         | Fulfilled r \<Rightarrow>
             let s2 = s1\<lparr>countdown := 30\<rparr>
             in if status r = OK then
                  (Returned,
                   emit (EnqueueSnackbar (T ''sign-in:messages.otpResent'') Variant_success) s2)
                else
                  (Returned,
                   emit (EnqueueSnackbar (T ''sign-in:inputs.phone.validation.server.error'')
                           Variant_error) s2))"
  by (cases "truthy (fullName (formValues s))")
    (simp_all add: handleResendOtp_def requestPayload_def Let_def split: promise.splits)

lemma onSubmit_payload:
  "onSubmit verifyOtp s =
     (if \<not> trigger [FullName, Phone, Otp] s then (Returned, s)
      else
        let s2 = emit (VerifyOtp (verifyPayload (formValues s))) (s\<lparr>isSubmitting := True\<rparr>)
        in case verifyOtp (verifyPayload (formValues s)) of
             Rejected \<Rightarrow> (Threw, s2)
           | Fulfilled r \<Rightarrow>
               if status r = UNPROCESSABLE_ENTITY then
                 (Returned,
                  emit (SetError Otp (T ''sign-in:alerts.wrongOTP''))
                    (s2\<lparr>isSubmitting := False\<rparr>))
               else if status r = OK then
                 let s3 = emit (EnqueueSnackbar (T ''sign-in:alerts.success'') Variant_success)
                            (s2\<lparr>isSubmitting := False\<rparr>)
                 in case data r of
                      None \<Rightarrow> (Threw, s3)
                    | Some d \<Rightarrow>
                        (Returned,
                         emit (SetUser (user d))
                           (emit (SetTokensInfo (token d) (refreshToken d) (tokenExpires d)) s3))
               else (Returned, s2))"
  by (simp add: onSubmit_def verifyPayload_def Let_def)

subsection \<open>Validation\<close>

text \<open>The rules of \<open>phone\<close> pass exactly on the strings of the spec's pattern.\<close>

lemma phoneRules_iff: "phoneRules p = [] \<longleftrightarrow> matchesTenDigits p"
  by (auto simp: phoneRules_def matchesTenDigits_def)

lemma trigger_request_iff:
  "trigger [Phone, FullName] s \<longleftrightarrow> matchesTenDigits (phone (formValues s))"
  by (simp add: trigger_def useValidationSchema_def requestOtpSchema_def verifyOtpSchema_def
      phoneRules_iff)

lemma matchesTenDigits_example: "matchesTenDigits ''5551234567''"
  by (simp add: matchesTenDigits_def digit_def)

lemma trigger_requesting: "trigger [Phone, FullName] requesting"
  by (simp add: trigger_request_iff requesting_def matchesTenDigits_example)

lemma trigger_verifying: "trigger [FullName, Phone, Otp] verifying"
  by (simp add: trigger_def useValidationSchema_def verifyOtpSchema_def verifying_def
      phoneRules_iff matchesTenDigits_example requiredRule_def)

subsection \<open>The in-flight flag\<close>

text \<open>
  \<open>handleRequestOtp\<close> clears \<open>isSubmitting\<close> whenever it has set it, whatever the
  service does: the \<open>finally\<close> block. \<open>handleResendOtp\<close> never writes the flag.
\<close>

lemma handleRequestOtp_releases:
  "isSubmitting (snd (handleRequestOtp requestOtp s)) \<longleftrightarrow>
     \<not> trigger [Phone, FullName] s \<and> isSubmitting s"
  by (simp add: handleRequestOtp_payload emit_def Let_def split: promise.splits)

lemma handleResendOtp_keeps_isSubmitting:
  "isSubmitting (snd (handleResendOtp requestOtp s)) = isSubmitting s"
  by (simp add: handleResendOtp_payload emit_def Let_def split: promise.splits)

text \<open>
  \<open>onSubmit\<close> has no such block: a status that is neither \<open>OK\<close> nor
  \<open>UNPROCESSABLE_ENTITY\<close>, and an exception of \<open>verifyOtp\<close>, leave the flag set.
\<close>

lemma onSubmit_other_status:
  assumes "trigger [FullName, Phone, Otp] s"
    and "verifyOtp (verifyPayload (formValues s)) = Fulfilled r"
    and "status r = OTHER n"
  shows "onSubmit verifyOtp s =
           (Returned, s\<lparr>isSubmitting := True,
                         effects := effects s @ [VerifyOtp (verifyPayload (formValues s))]\<rparr>)"
  using assms by (simp add: onSubmit_payload emit_def)

lemma onSubmit_rejected:
  assumes "trigger [FullName, Phone, Otp] s"
    and "verifyOtp (verifyPayload (formValues s)) = Rejected"
  shows "onSubmit verifyOtp s =
           (Threw, s\<lparr>isSubmitting := True,
                      effects := effects s @ [VerifyOtp (verifyPayload (formValues s))]\<rparr>)"
  using assms by (simp add: onSubmit_payload emit_def)

text \<open>
  C1: after every network operation the flag \<open>isSubmitting\<close> is false, in particular after
  a verify response whose status is neither OK nor UNPROCESSABLE. The code does not do
  this: submitting the code 123456 for the phone 5551234567 when \<open>verifyOtp\<close> answers
  with another status (here 500) returns with \<open>isSubmitting\<close> still true, after the one
  call of \<open>verifyOtp\<close> and nothing else.
\<close>

theorem onSubmit_other_status_leaves_isSubmitting:
  "onSubmit (answering \<lparr>status = OTHER 500, data = None\<rparr>) verifying =
     (Returned,
      verifying\<lparr>isSubmitting := True,
                effects := [VerifyOtp \<lparr>ver_phone = ''5551234567'', ver_otp = Some ''123456''\<rparr>]\<rparr>)"
  using trigger_verifying
  by (simp add: onSubmit_payload emit_def verifyPayload_def answering_def) (simp add: verifying_def)

subsection \<open>Requesting a code\<close>

text \<open>
  C2: when the first request of a code is answered with a status other than OK, the
  handler returns with one new field error, on \<open>phone\<close>; its message is not the message
  that the resend handler shows for the same answer; \<open>isSubmitting\<close> is false and
  \<open>isOtpSent\<close> is what it was.
\<close>

theorem handleRequestOtp_failure:
  assumes "trigger [Phone, FullName] s"
    and "requestOtp (requestPayload (formValues s)) = Fulfilled r"
    and "status r \<noteq> OK"
  shows "fst (handleRequestOtp requestOtp s) = Returned
       \<and> fieldErrors (effects (snd (handleRequestOtp requestOtp s))) =
           fieldErrors (effects s) @ [(Phone, T ''sign-in:alerts.otpResentFailed'')]
       \<and> snackbars (effects (snd (handleResendOtp requestOtp s))) =
           snackbars (effects s) @
             [(T ''sign-in:inputs.phone.validation.server.error'', Variant_error)]
       \<and> T ''sign-in:alerts.otpResentFailed'' \<noteq>
           T ''sign-in:inputs.phone.validation.server.error''
       \<and> \<not> isSubmitting (snd (handleRequestOtp requestOtp s))
       \<and> isOtpSent (snd (handleRequestOtp requestOtp s)) = isOtpSent s"
  using assms
  by (simp add: handleRequestOtp_payload handleResendOtp_payload emit_def Let_def
      fieldErrors_append snackbars_append)

theorem handleRequestOtp_failure_witness:
  "fieldErrors (effects (snd (handleRequestOtp
      (answering \<lparr>status = OTHER 500, data = None\<rparr>) requesting))) =
     [(Phone, T ''sign-in:alerts.otpResentFailed'')]
   \<and> \<not> isSubmitting (snd (handleRequestOtp
      (answering \<lparr>status = OTHER 500, data = None\<rparr>) requesting))
   \<and> \<not> isOtpSent (snd (handleRequestOtp
      (answering \<lparr>status = OTHER 500, data = None\<rparr>) requesting))"
  using handleRequestOtp_failure [of requesting
      "answering \<lparr>status = OTHER 500, data = None\<rparr>" "\<lparr>status = OTHER 500, data = None\<rparr>"]
    trigger_requesting
  by (simp add: answering_def requesting_def)

text \<open>
  C5: for every phone number of ten or more digits (and any name), a request answered
  with OK leaves \<open>isOtpSent\<close> true, \<open>countdown\<close> at 30, one new success notification and
  \<open>isSubmitting\<close> false.
\<close>

theorem handleRequestOtp_success:
  assumes "matchesTenDigits (phone (formValues s))"
    and "requestOtp (requestPayload (formValues s)) = Fulfilled r"
    and "status r = OK"
  shows "fst (handleRequestOtp requestOtp s) = Returned
       \<and> isOtpSent (snd (handleRequestOtp requestOtp s))
       \<and> countdown (snd (handleRequestOtp requestOtp s)) = 30
       \<and> snackbars (effects (snd (handleRequestOtp requestOtp s))) =
           snackbars (effects s) @ [(T ''sign-in:alert.otpSent'', Variant_success)]
       \<and> \<not> isSubmitting (snd (handleRequestOtp requestOtp s))"
  using assms
  by (simp add: handleRequestOtp_payload emit_def Let_def snackbars_append trigger_request_iff)

theorem handleRequestOtp_success_witness:
  "isOtpSent (snd (handleRequestOtp (answering \<lparr>status = OK, data = None\<rparr>) requesting))
   \<and> countdown (snd (handleRequestOtp (answering \<lparr>status = OK, data = None\<rparr>)
        requesting)) = 30
   \<and> snackbars (effects (snd (handleRequestOtp (answering \<lparr>status = OK, data = None\<rparr>)
        requesting))) = [(T ''sign-in:alert.otpSent'', Variant_success)]
   \<and> \<not> isSubmitting (snd (handleRequestOtp (answering \<lparr>status = OK, data = None\<rparr>)
        requesting))"
  using handleRequestOtp_success [of requesting
      "answering \<lparr>status = OK, data = None\<rparr>" "\<lparr>status = OK, data = None\<rparr>"]
    matchesTenDigits_example
  by (simp add: answering_def requesting_def)

text \<open>
  C7: a phone string that does not match \<open>^\d{10,}$\<close> fails the phone rule of the
  request schema, and \<open>handleRequestOtp\<close> returns at once: the state, and with it the
  list of calls of \<open>requestOtp\<close>, is unchanged.
\<close>

theorem invalid_phone_no_request:
  assumes "\<not> matchesTenDigits (phone (formValues s))"
  shows "requestOtpSchema (formValues s) Phone \<noteq> []
       \<and> \<not> trigger [Phone, FullName] s
       \<and> handleRequestOtp requestOtp s = (Returned, s)
       \<and> requestOtpCalls (effects (snd (handleRequestOtp requestOtp s))) =
           requestOtpCalls (effects s)"
  using assms
  by (simp add: handleRequestOtp_def trigger_request_iff requestOtpSchema_def phoneRules_iff)

theorem invalid_phone_no_request_witness:
  "\<not> matchesTenDigits ''55512345a7''
   \<and> handleRequestOtp (answering \<lparr>status = OK, data = None\<rparr>)
        (requesting\<lparr>formValues := (formValues requesting)\<lparr>phone := ''55512345a7''\<rparr>\<rparr>) =
       (Returned, requesting\<lparr>formValues := (formValues requesting)\<lparr>phone := ''55512345a7''\<rparr>\<rparr>)"
  using invalid_phone_no_request [of
      "requesting\<lparr>formValues := (formValues requesting)\<lparr>phone := ''55512345a7''\<rparr>\<rparr>"
      "answering \<lparr>status = OK, data = None\<rparr>"]
  by (simp add: matchesTenDigits_def digit_def)

subsection \<open>Resending a code\<close>

text \<open>
  When the awaited call throws, \<open>handleResendOtp\<close> ends at the call: the countdown is
  not written and nothing is shown.
\<close>

lemma handleResendOtp_rejected:
  assumes "requestOtp (requestPayload (formValues s)) = Rejected"
  shows "handleResendOtp requestOtp s =
           (Threw, s\<lparr>effects := effects s @ [RequestOtp (requestPayload (formValues s))]\<rparr>)"
  using assms by (simp add: handleResendOtp_payload emit_def)

text \<open>
  C3: while \<open>countdown\<close> is positive a click on the resend button does nothing, so the
  countdown keeps its value; at \<open>countdown = 0\<close>, in the second step and with no
  submission in flight, the click runs \<open>handleResendOtp\<close>, which calls \<open>requestOtp\<close>.
\<close>

theorem resend_rejected_while_counting:
  "(0 < countdown s \<longrightarrow> clickResendOtp requestOtp s = (Returned, s))
   \<and> (countdown s = 0 \<and> isOtpSent s \<and> \<not> isSubmitting s \<longrightarrow>
        clickResendOtp requestOtp s = handleResendOtp requestOtp s
        \<and> requestOtpCalls (effects (snd (clickResendOtp requestOtp s))) =
            requestOtpCalls (effects s) @ [requestPayload (formValues s)])"
  by (simp add: clickResendOtp_def resendOtpDisabled_def handleResendOtp_payload emit_def Let_def
      requestOtpCalls_append split: promise.splits)

theorem resend_rejected_while_counting_witness:
  "clickResendOtp (answering \<lparr>status = OK, data = None\<rparr>) (verifying\<lparr>countdown := 5\<rparr>) =
     (Returned, verifying\<lparr>countdown := 5\<rparr>)
   \<and> countdown (snd (clickResendOtp (answering \<lparr>status = OK, data = None\<rparr>)
        (verifying\<lparr>countdown := 5\<rparr>))) = 5
   \<and> requestOtpCalls (effects (snd (clickResendOtp
        (answering \<lparr>status = OK, data = None\<rparr>) verifying))) =
       [\<lparr>req_phone = ''5551234567'', req_fullName = Some ''Jane Doe''\<rparr>]"
proof -
  let ?ok = "answering \<lparr>status = OK, data = None\<rparr> :: requestOtpService"
  have counting: "0 < countdown (verifying\<lparr>countdown := 5\<rparr>)"
    by simp
  have expired: "countdown verifying = 0 \<and> isOtpSent verifying \<and> \<not> isSubmitting verifying"
    by (simp add: verifying_def)
  from resend_rejected_while_counting [of "verifying\<lparr>countdown := 5\<rparr>" ?ok] counting
  have rejected: "clickResendOtp ?ok (verifying\<lparr>countdown := 5\<rparr>) =
                    (Returned, verifying\<lparr>countdown := 5\<rparr>)"
    by blast
  from resend_rejected_while_counting [of verifying ?ok] expired
  have permitted: "requestOtpCalls (effects (snd (clickResendOtp ?ok verifying))) =
                     requestOtpCalls (effects verifying) @ [requestPayload (formValues verifying)]"
    by blast
  have "requestOtpCalls (effects verifying) @ [requestPayload (formValues verifying)] =
          [\<lparr>req_phone = ''5551234567'', req_fullName = Some ''Jane Doe''\<rparr>]"
    by (simp add: verifying_def requestPayload_def truthy_def)
  with rejected permitted show ?thesis
    by simp
qed



text \<open>
  C10: the payload of the one call of \<open>requestOtp\<close> that the resend handler makes, and
  of the one call that the request handler makes once the form is valid, has the phone of
  the form, and a \<open>fullName\<close> only when the form's \<open>fullName\<close> is a non-empty string (then
  that string).
\<close>

theorem fullName_omitted_when_empty:
  "(\<exists>p. requestOtpCalls (effects (snd (handleResendOtp requestOtp s))) =
          requestOtpCalls (effects s) @ [p]
        \<and> req_phone p = phone (formValues s)
        \<and> fullNameOnlyIfNonEmpty (formValues s) p)
   \<and> (trigger [Phone, FullName] s \<longrightarrow>
        (\<exists>p. requestOtpCalls (effects (snd (handleRequestOtp requestOtp s))) =
              requestOtpCalls (effects s) @ [p]
            \<and> req_phone p = phone (formValues s)
            \<and> fullNameOnlyIfNonEmpty (formValues s) p))"
  by (simp add: handleResendOtp_def handleRequestOtp_def emit_def Let_def requestOtpCalls_append
      fullNameOnlyIfNonEmpty_def truthy_def split: promise.splits option.splits)

theorem fullName_omitted_when_empty_witness:
  "requestOtpCalls (effects (snd (handleRequestOtp (answering \<lparr>status = OK, data = None\<rparr>)
      (requesting\<lparr>formValues := (formValues requesting)\<lparr>fullName := Some []\<rparr>\<rparr>)))) =
     [\<lparr>req_phone = ''5551234567'', req_fullName = None\<rparr>]
   \<and> requestOtpCalls (effects (snd (handleRequestOtp
        (answering \<lparr>status = OK, data = None\<rparr>) requesting))) =
     [\<lparr>req_phone = ''5551234567'', req_fullName = Some ''Jane Doe''\<rparr>]"
proof -
  let ?ok = "answering \<lparr>status = OK, data = None\<rparr> :: requestOtpService"
  let ?s = "requesting\<lparr>formValues := (formValues requesting)\<lparr>fullName := Some []\<rparr>\<rparr>"
  have valid: "trigger [Phone, FullName] ?s"
    by (simp add: trigger_request_iff requesting_def matchesTenDigits_example)
  from fullName_omitted_when_empty [of ?ok ?s] valid
  obtain p where p: "requestOtpCalls (effects (snd (handleRequestOtp ?ok ?s))) =
                       requestOtpCalls (effects ?s) @ [p]"
      "req_phone p = phone (formValues ?s)" "fullNameOnlyIfNonEmpty (formValues ?s) p"
    by blast
  then have "p = \<lparr>req_phone = ''5551234567'', req_fullName = None\<rparr>"
    by (cases p) (simp add: fullNameOnlyIfNonEmpty_def requesting_def)
  with p(1) have empty: "requestOtpCalls (effects (snd (handleRequestOtp ?ok ?s))) =
      [\<lparr>req_phone = ''5551234567'', req_fullName = None\<rparr>]"
    by (simp add: requesting_def)
  from fullName_omitted_when_empty [of ?ok requesting] trigger_requesting
  obtain q where q: "requestOtpCalls (effects (snd (handleRequestOtp ?ok requesting))) =
                       requestOtpCalls (effects requesting) @ [q]"
      "req_phone q = phone (formValues requesting)"
      "fullNameOnlyIfNonEmpty (formValues requesting) q"
    by blast
  then have "q = \<lparr>req_phone = ''5551234567'', req_fullName = Some ''Jane Doe''\<rparr>"
    by (cases q) (simp add: fullNameOnlyIfNonEmpty_def requesting_def)
  with q(1) have named: "requestOtpCalls (effects (snd (handleRequestOtp ?ok requesting))) =
      [\<lparr>req_phone = ''5551234567'', req_fullName = Some ''Jane Doe''\<rparr>]"
    by (simp add: requesting_def)
  from empty named show ?thesis
    by simp
qed

subsection \<open>Verifying a code\<close>

text \<open>
  C6: a submission answered with UNPROCESSABLE returns with \<open>isOtpSent\<close> as it was (so
  the form stays in the second step), exactly one new field error, on \<open>otp\<close> with the
  wrong-code message, \<open>isSubmitting\<close> false, and the form values and the countdown
  untouched.
\<close>

theorem onSubmit_wrong_code:
  assumes "trigger [FullName, Phone, Otp] s"
    and "verifyOtp (verifyPayload (formValues s)) = Fulfilled r"
    and "status r = UNPROCESSABLE_ENTITY"
  shows "fst (onSubmit verifyOtp s) = Returned
       \<and> isOtpSent (snd (onSubmit verifyOtp s)) = isOtpSent s
       \<and> fieldErrors (effects (snd (onSubmit verifyOtp s))) =
           fieldErrors (effects s) @ [(Otp, T ''sign-in:alerts.wrongOTP'')]
       \<and> \<not> isSubmitting (snd (onSubmit verifyOtp s))
       \<and> formValues (snd (onSubmit verifyOtp s)) = formValues s
       \<and> countdown (snd (onSubmit verifyOtp s)) = countdown s"
  using assms by (simp add: onSubmit_payload emit_def fieldErrors_append)

theorem onSubmit_wrong_code_witness:
  "fieldErrors (effects (snd (onSubmit
      (answering \<lparr>status = UNPROCESSABLE_ENTITY, data = None\<rparr>)
      (verifying\<lparr>countdown := 12\<rparr>)))) = [(Otp, T ''sign-in:alerts.wrongOTP'')]
   \<and> isOtpSent (snd (onSubmit (answering \<lparr>status = UNPROCESSABLE_ENTITY, data = None\<rparr>)
      (verifying\<lparr>countdown := 12\<rparr>)))
   \<and> \<not> isSubmitting (snd (onSubmit
      (answering \<lparr>status = UNPROCESSABLE_ENTITY, data = None\<rparr>)
      (verifying\<lparr>countdown := 12\<rparr>)))
   \<and> countdown (snd (onSubmit (answering \<lparr>status = UNPROCESSABLE_ENTITY, data = None\<rparr>)
      (verifying\<lparr>countdown := 12\<rparr>))) = 12"
proof -
  let ?bad = "answering \<lparr>status = UNPROCESSABLE_ENTITY, data = None\<rparr> :: nat verifyOtpService"
  let ?s = "verifying\<lparr>countdown := 12\<rparr>"
  have valid: "trigger [FullName, Phone, Otp] ?s"
    using trigger_verifying by (simp add: trigger_def)
  from onSubmit_wrong_code [of ?s ?bad "\<lparr>status = UNPROCESSABLE_ENTITY, data = None\<rparr>"] valid
  show ?thesis
    by (simp add: answering_def verifying_def)
qed

text \<open>
  C9: a submission answered with OK ends with \<open>isSubmitting\<close> false and one new success
  notification; with the session data of the response, the handler returns after passing
  the token, refresh token and expiry to \<open>setTokensInfo\<close> and the user to \<open>setUser\<close>,
  and these are all its effects.
\<close>

theorem onSubmit_success:
  assumes "trigger [FullName, Phone, Otp] s"
    and "verifyOtp (verifyPayload (formValues s)) = Fulfilled r"
    and "status r = OK"
  shows "\<not> isSubmitting (snd (onSubmit verifyOtp s))
       \<and> snackbars (effects (snd (onSubmit verifyOtp s))) =
           snackbars (effects s) @ [(T ''sign-in:alerts.success'', Variant_success)]
       \<and> (\<forall>d. data r = Some d \<longrightarrow>
            onSubmit verifyOtp s =
              (Returned,
               s\<lparr>isSubmitting := False,
                 effects := effects s @
                   [VerifyOtp (verifyPayload (formValues s)),
                    EnqueueSnackbar (T ''sign-in:alerts.success'') Variant_success,
                    SetTokensInfo (token d) (refreshToken d) (tokenExpires d),
                    SetUser (user d)]\<rparr>))"
  using assms
  by (simp add: onSubmit_payload emit_def Let_def snackbars_append split: option.splits)

theorem onSubmit_success_witness:
  "onSubmit (answering \<lparr>status = OK, data = Some
        \<lparr>token = ''tok'', refreshToken = ''ref'', tokenExpires = 1700000000, user = 7\<rparr>\<rparr>)
      verifying =
     (Returned,
      verifying\<lparr>effects :=
          [VerifyOtp \<lparr>ver_phone = ''5551234567'', ver_otp = Some ''123456''\<rparr>,
           EnqueueSnackbar (T ''sign-in:alerts.success'') Variant_success,
           SetTokensInfo ''tok'' ''ref'' 1700000000,
           SetUser 7]\<rparr>)"
  using onSubmit_success [of verifying
      "answering \<lparr>status = OK, data = Some
        \<lparr>token = ''tok'', refreshToken = ''ref'', tokenExpires = 1700000000, user = 7\<rparr>\<rparr>"
      "\<lparr>status = OK, data = Some
        \<lparr>token = ''tok'', refreshToken = ''ref'', tokenExpires = 1700000000, user = 7\<rparr>\<rparr>"]
    trigger_verifying
  by (simp add: answering_def verifying_def verifyPayload_def)

subsection \<open>Going back\<close>

text \<open>
  C8: \<open>handleBack\<close> leaves \<open>isOtpSent\<close> false, \<open>countdown\<close> 0 and \<open>otp\<close> the empty
  string, keeps \<open>phone\<close> and \<open>fullName\<close>, calls no collaborator (the log is unchanged),
  and running it again on its result changes nothing. This holds from every state, so
  from every state of the second step.
\<close>

theorem handleBack_idempotent:
  "isOtpSent (handleBack s) = False
   \<and> countdown (handleBack s) = 0
   \<and> otp (formValues (handleBack s)) = Some []
   \<and> phone (formValues (handleBack s)) = phone (formValues s)
   \<and> fullName (formValues (handleBack s)) = fullName (formValues s)
   \<and> effects (handleBack s) = effects s
   \<and> handleBack (handleBack s) = handleBack s"
  by (simp add: handleBack_def Let_def)

end
